theory Spec2Isabelle
  imports Main "HOL-Library.Char_ord" "HOL-Library.List_Lexorder"
begin

section \<open>The no-cache development server\<close>

text \<open>
  The repository is one script, \<^verbatim>\<open>nocache_server.py\<close>: the constant \<^verbatim>\<open>PORT\<close>, the class
  \<^verbatim>\<open>NoCacheHandler(http.server.SimpleHTTPRequestHandler)\<close> overriding \<^verbatim>\<open>end_headers\<close>, and
  the start-up block that builds a \<^verbatim>\<open>socketserver.TCPServer\<close>, prints one line and calls
  \<^verbatim>\<open>serve_forever\<close>.

  Everything the override calls and everything that calls the override is inherited from
  CPython's \<^verbatim>\<open>http/server.py\<close> (\<^verbatim>\<open>BaseHTTPRequestHandler\<close>, \<^verbatim>\<open>SimpleHTTPRequestHandler\<close>) and
  \<^verbatim>\<open>socketserver.py\<close> (\<^verbatim>\<open>TCPServer\<close>). Those methods are embedded here method by method from
  the CPython 3.11 sources, under their own names. What lies beyond these two modules (the
  operating system, \<^verbatim>\<open>urllib\<close>, \<^verbatim>\<open>mimetypes\<close>, \<^verbatim>\<open>email.utils\<close>, \<^verbatim>\<open>time\<close>, \<^verbatim>\<open>repr\<close>) is a field of
  the environment record \<open>env\<close>, so every theorem holds for whatever those functions return.

  A Python \<^verbatim>\<open>str\<close> is a \<open>string\<close> whose characters are the code points below 256 (the request
  line and the header fields are decoded as ISO-8859-1, so they are exactly that); a
  \<^verbatim>\<open>bytes\<close> object is a \<open>string\<close> too. POSIX path conventions are assumed (\<^verbatim>\<open>os.sep = '/'\<close>).
  Logging (\<^verbatim>\<open>log_message\<close>) only writes to \<^verbatim>\<open>sys.stderr\<close> and is left out.
\<close>

subsection \<open>Python string primitives\<close>

type_synonym bytes = string

definition CRLF :: bytes where
  "CRLF = [CHR 0x0D, CHR 0x0A]"

definition LF :: string where
  "LF = [CHR 0x0A]"

text \<open>\<^verbatim>\<open>str.lower\<close> on code points below 256: A-Z and the Latin-1 capitals except the
  multiplication sign move up by 32.\<close>

definition lower_char :: "char \<Rightarrow> char" where
  "lower_char c =
     (let n = (of_char c :: nat)
      in if (0x41 \<le> n \<and> n \<le> 0x5A) \<or> (0xC0 \<le> n \<and> n \<le> 0xDE \<and> n \<noteq> 0xD7)
         then char_of (n + 32) else c)"

definition lower :: "string \<Rightarrow> string" where
  "lower s = map lower_char s"

definition startswith :: "string \<Rightarrow> string \<Rightarrow> bool" where
  \<comment> \<open>\<^verbatim>\<open>s.startswith(p)\<close>\<close>
  "startswith p s \<longleftrightarrow> take (length p) s = p"

definition endswith :: "string \<Rightarrow> string \<Rightarrow> bool" where
  \<comment> \<open>\<^verbatim>\<open>s.endswith(p)\<close>\<close>
  "endswith p s \<longleftrightarrow> length p \<le> length s \<and> drop (length s - length p) s = p"

text \<open>\<^verbatim>\<open>str(n)\<close> and \<^verbatim>\<open>"%d" % n\<close> for a non-negative integer.\<close>

fun str_nat :: "nat \<Rightarrow> string" where
  "str_nat n =
     (if n < 10 then [char_of (48 + n)]
      else str_nat (n div 10) @ [char_of (48 + n mod 10)])"

declare str_nat.simps [simp del]

text \<open>\<^verbatim>\<open>str.isspace\<close> and \<^verbatim>\<open>str.isdigit\<close> on code points below 256.\<close>

definition isspace :: "char \<Rightarrow> bool" where
  "isspace c =
     (let n = (of_char c :: nat)
      in (0x09 \<le> n \<and> n \<le> 0x0D) \<or> (0x1C \<le> n \<and> n \<le> 0x20) \<or> n = 0x85 \<or> n = 0xA0)"

definition isdigit_char :: "char \<Rightarrow> bool" where
  "isdigit_char c =
     (let n = (of_char c :: nat)
      in (0x30 \<le> n \<and> n \<le> 0x39) \<or> n = 0xB2 \<or> n = 0xB3 \<or> n = 0xB9)"

definition isdigit :: "string \<Rightarrow> bool" where
  \<comment> \<open>false on the empty string\<close>
  "isdigit s \<longleftrightarrow> s \<noteq> [] \<and> list_all isdigit_char s"

text \<open>\<^verbatim>\<open>int(s)\<close> on a string that passed \<^verbatim>\<open>isdigit\<close>: the superscript digits are digits for
  \<^verbatim>\<open>isdigit\<close> but make \<^verbatim>\<open>int\<close> raise \<^verbatim>\<open>ValueError\<close> (the result \<open>None\<close>).\<close>

definition ascii_digit :: "char \<Rightarrow> bool" where
  "ascii_digit c \<longleftrightarrow> 0x30 \<le> (of_char c :: nat) \<and> (of_char c :: nat) \<le> 0x39"

definition py_int :: "string \<Rightarrow> nat option" where
  "py_int s =
     (if s \<noteq> [] \<and> list_all ascii_digit s
      then Some (foldl (\<lambda>acc c. 10 * acc + (of_char c - 48)) 0 s)
      else None)"

text \<open>\<^verbatim>\<open>s.split()\<close>: the maximal runs of non-whitespace characters.\<close>

fun split_ws :: "string \<Rightarrow> string \<Rightarrow> string list" where
  "split_ws w [] = (if w = [] then [] else [w])"
| "split_ws w (c # cs) =
     (if isspace c then (if w = [] then split_ws [] cs else w # split_ws [] cs)
      else split_ws (w @ [c]) cs)"

definition py_split :: "string \<Rightarrow> string list" where
  "py_split s = split_ws [] s"

text \<open>\<^verbatim>\<open>s.split(sep)\<close> for a one-character separator: empty pieces are kept.\<close>

fun split_sep :: "char \<Rightarrow> string \<Rightarrow> string \<Rightarrow> string list" where
  "split_sep sep w [] = [w]"
| "split_sep sep w (c # cs) =
     (if c = sep then w # split_sep sep [] cs else split_sep sep (w @ [c]) cs)"

definition split_on :: "char \<Rightarrow> string \<Rightarrow> string list" where
  "split_on sep s = split_sep sep [] s"

definition split1_fst :: "char \<Rightarrow> string \<Rightarrow> string" where
  \<comment> \<open>\<^verbatim>\<open>s.split(sep, 1)[0]\<close>\<close>
  "split1_fst sep s = takeWhile (\<lambda>c. c \<noteq> sep) s"

definition split1_snd :: "char \<Rightarrow> string \<Rightarrow> string option" where
  \<comment> \<open>\<^verbatim>\<open>s.split(sep, 1)[1]\<close>; \<open>None\<close> is the \<^verbatim>\<open>IndexError\<close> when \<open>sep\<close> does not occur\<close>
  "split1_snd sep s =
     (case dropWhile (\<lambda>c. c \<noteq> sep) s of [] \<Rightarrow> None | _ # rest \<Rightarrow> Some rest)"

definition rstrip_chars :: "string \<Rightarrow> string \<Rightarrow> string" where
  \<comment> \<open>\<^verbatim>\<open>s.rstrip(chars)\<close>\<close>
  "rstrip_chars chars s = rev (dropWhile (\<lambda>c. c \<in> set chars) (rev s))"

definition rstrip_ws :: "string \<Rightarrow> string" where
  \<comment> \<open>\<^verbatim>\<open>s.rstrip()\<close>\<close>
  "rstrip_ws s = rev (dropWhile isspace (rev s))"

definition lstrip_chars :: "string \<Rightarrow> string \<Rightarrow> string" where
  \<comment> \<open>\<^verbatim>\<open>s.lstrip(chars)\<close>\<close>
  "lstrip_chars chars s = dropWhile (\<lambda>c. c \<in> set chars) s"

text \<open>\<^verbatim>\<open>s.rfind(c)\<close>: the last index of \<open>c\<close>, or -1.\<close>

fun rfind_from :: "char \<Rightarrow> string \<Rightarrow> int \<Rightarrow> int \<Rightarrow> int" where
  "rfind_from c [] i best = best"
| "rfind_from c (x # xs) i best = rfind_from c xs (i + 1) (if x = c then i else best)"

definition rfind :: "char \<Rightarrow> string \<Rightarrow> int" where
  "rfind c s = rfind_from c s 0 (- 1)"

text \<open>\<^verbatim>\<open>html.escape(s, quote=False)\<close>: three successive \<^verbatim>\<open>replace\<close> calls, the ampersand
  first, which is the same as replacing each character on its own.\<close>

definition escape_char :: "char \<Rightarrow> string" where
  "escape_char c =
     (if c = CHR ''&'' then ''&amp;''
      else if c = CHR ''<'' then ''&lt;''
      else if c = CHR ''>'' then ''&gt;''
      else [c])"

definition html_escape :: "string \<Rightarrow> string" where
  "html_escape s = concat (map escape_char s)"

text \<open>\<^verbatim>\<open>s.encode('UTF-8', 'replace')\<close> on code points below 256: one byte below 128, two
  bytes from there on.\<close>

definition utf8_char :: "char \<Rightarrow> bytes" where
  "utf8_char c =
     (let n = (of_char c :: nat)
      in if n < 128 then [c] else [char_of (192 + n div 64), char_of (128 + n mod 64)])"

definition encode_utf8 :: "string \<Rightarrow> bytes" where
  "encode_utf8 s = concat (map utf8_char s)"

text \<open>\<^verbatim>\<open>sep.join(xs)\<close>\<close>

fun join_with :: "string \<Rightarrow> string list \<Rightarrow> string" where
  "join_with sep [] = []"
| "join_with sep [x] = x"
| "join_with sep (x # y # ys) = x @ sep @ join_with sep (y # ys)"

subsection \<open>\<^verbatim>\<open>posixpath\<close>\<close>

text \<open>\<^verbatim>\<open>posixpath.join(a, b)\<close> with two arguments.\<close>

definition path_join :: "string \<Rightarrow> string \<Rightarrow> string" where
  "path_join a b =
     (if startswith ''/'' b then b
      else if a = [] \<or> endswith ''/'' a then a @ b
      else a @ ''/'' @ b)"

text \<open>\<^verbatim>\<open>posixpath.dirname(p)\<close>\<close>

definition dirname :: "string \<Rightarrow> string" where
  "dirname p =
     (let i = nat (rfind CHR ''/'' p + 1);
          head = take i p
      in if head \<noteq> [] \<and> head \<noteq> replicate (length head) CHR ''/''
         then rstrip_chars ''/'' head else head)"

text \<open>\<^verbatim>\<open>posixpath.splitext(p)\<close>, that is \<^verbatim>\<open>genericpath._splitext(p, '/', None, '.')\<close>: the
  extension starts at the last dot, unless only dots lie between the last separator and it.\<close>

definition splitext :: "string \<Rightarrow> string \<times> string" where
  "splitext p =
     (let sepIndex = rfind CHR ''/'' p;
          dotIndex = rfind CHR ''.'' p
      in if dotIndex > sepIndex \<and>
            list_ex (\<lambda>c. c \<noteq> CHR ''.'')
              (take (nat dotIndex - nat (sepIndex + 1)) (drop (nat (sepIndex + 1)) p))
         then (take (nat dotIndex) p, drop (nat dotIndex) p)
         else (p, []))"

subsection \<open>The environment\<close>

text \<open>
  What the handler obtains from outside \<^verbatim>\<open>http/server.py\<close>, as it stands while one request
  is served. A function that may raise has an \<open>option\<close> or a sum as its result.
  \<^item> \<open>directory\<close>: \<^verbatim>\<open>os.getcwd()\<close>, stored in \<^verbatim>\<open>self.directory\<close> when the handler is built;
  \<^item> \<open>isdir\<close>, \<open>isfile\<close>, \<open>islink\<close>: \<^verbatim>\<open>os.path.isdir\<close>, \<^verbatim>\<open>os.path.isfile\<close>, \<^verbatim>\<open>os.path.islink\<close>;
  \<^item> \<open>open_rb\<close>: \<^verbatim>\<open>open(path, 'rb')\<close> followed by \<^verbatim>\<open>os.fstat\<close>: the bytes, \<^verbatim>\<open>st_size\<close> and
    \<^verbatim>\<open>st_mtime\<close> (in whole seconds) of the file, or \<^verbatim>\<open>OSError\<close>, or another exception
    (\<^verbatim>\<open>open\<close> raises \<^verbatim>\<open>ValueError\<close> on a name with a NUL character);
  \<^item> \<open>listdir\<close>: \<^verbatim>\<open>os.listdir\<close>, \<open>None\<close> for \<^verbatim>\<open>OSError\<close>;
  \<^item> \<open>unquote\<close>, \<open>quote\<close>, \<open>urlsplit\<close>, \<open>urlunsplit\<close>: the functions of \<^verbatim>\<open>urllib.parse\<close>
    (\<open>urlsplit\<close> raises \<^verbatim>\<open>ValueError\<close> on some inputs: \<open>None\<close>);
  \<^item> \<open>normpath\<close>: \<^verbatim>\<open>posixpath.normpath\<close>;
  \<^item> \<open>mimetypes_guess_type\<close>: the first component of \<^verbatim>\<open>mimetypes.guess_type\<close>;
  \<^item> \<open>parsedate_to_datetime\<close>: \<^verbatim>\<open>email.utils.parsedate_to_datetime\<close>; \<open>None\<close> when it raises,
    else the moment in seconds and the UTC offset of its time zone (\<open>None\<close> for a naive
    result);
  \<^item> \<open>formatdate\<close>: \<^verbatim>\<open>email.utils.formatdate(t, usegmt=True)\<close>; \<open>time_now\<close>: \<^verbatim>\<open>time.time()\<close>;
  \<^item> \<open>repr\<close>: the \<^verbatim>\<open>%r\<close> conversion of a string;
  \<^item> \<open>python_version\<close>: \<^verbatim>\<open>sys.version.split()[0]\<close>;
  \<^item> \<open>filesystemencoding\<close>: \<^verbatim>\<open>sys.getfilesystemencoding()\<close>, and \<open>encode_fs\<close>: encoding a
    string with it (\<open>None\<close> for \<^verbatim>\<open>UnicodeEncodeError\<close>).
\<close>

datatype exn = AttributeError | TypeError | ValueError | UnicodeEncodeError

datatype open_result = Opened bytes nat int | OpenOSError | OpenRaises exn

type_synonym split_result = "string \<times> string \<times> string \<times> string \<times> string"

record env =
  directory :: string
  isdir :: "string \<Rightarrow> bool"
  isfile :: "string \<Rightarrow> bool"
  islink :: "string \<Rightarrow> bool"
  open_rb :: "string \<Rightarrow> open_result"
  listdir :: "string \<Rightarrow> string list option"
  unquote :: "string \<Rightarrow> string"
  quote :: "string \<Rightarrow> string"
  urlsplit :: "string \<Rightarrow> split_result option"
  urlunsplit :: "split_result \<Rightarrow> string"
  normpath :: "string \<Rightarrow> string"
  mimetypes_guess_type :: "string \<Rightarrow> string option"
  parsedate_to_datetime :: "string \<Rightarrow> (int \<times> int option) option"
  formatdate :: "int \<Rightarrow> string"
  time_now :: int
  repr :: "string \<Rightarrow> string"
  python_version :: string
  filesystemencoding :: string
  encode_fs :: "string \<Rightarrow> bytes option"

subsection \<open>The request handler object\<close>

text \<open>
  The attributes of a handler instance that the methods below read or write.
  \<open>headers_buffer = None\<close> stands for an instance on which \<^verbatim>\<open>_headers_buffer\<close> has not been
  set yet (the code tests \<^verbatim>\<open>hasattr\<close>). \<open>wfile\<close> is the sequence of \<^verbatim>\<open>wfile.write\<close> calls so
  far; the stream is unbuffered, so the bytes on the wire are their concatenation. A write
  remembers whether \<^verbatim>\<open>flush_headers\<close> or a body copy made it.
\<close>

datatype chunk = HeaderBlock bytes | BodyData bytes

fun wire_bytes :: "chunk \<Rightarrow> bytes" where
  "wire_bytes (HeaderBlock b) = b"
| "wire_bytes (BodyData b) = b"

definition wire :: "chunk list \<Rightarrow> bytes" where
  "wire ws = concat (map wire_bytes ws)"

record handler =
  command :: "string option"
  path :: string
  request_version :: string
  requestline :: string
  headers :: "(string \<times> string) list"
  headers_buffer :: "bytes list option"
  wfile :: "chunk list"
  close_connection :: bool

definition protocol_version :: string where
  "protocol_version = ''HTTP/1.0''"

definition default_request_version :: string where
  "default_request_version = ''HTTP/0.9''"

text \<open>\<^verbatim>\<open>BaseHTTPRequestHandler.send_header\<close>\<close>

definition send_header :: "string \<Rightarrow> string \<Rightarrow> handler \<Rightarrow> handler" where
  "send_header keyword val h =
     (let h1 = (if request_version h \<noteq> ''HTTP/0.9''
                then h\<lparr>headers_buffer :=
                        Some ((case headers_buffer h of None \<Rightarrow> [] | Some buf \<Rightarrow> buf)
                              @ [keyword @ '': '' @ val @ CRLF])\<rparr>
                else h)
      in if lower keyword = ''connection''
         then (if lower val = ''close'' then h1\<lparr>close_connection := True\<rparr>
               else if lower val = ''keep-alive'' then h1\<lparr>close_connection := False\<rparr>
               else h1)
         else h1)"

text \<open>\<^verbatim>\<open>BaseHTTPRequestHandler.flush_headers\<close>\<close>

definition flush_headers :: "handler \<Rightarrow> handler" where
  "flush_headers h =
     (case headers_buffer h of
        None \<Rightarrow> h
      | Some buf \<Rightarrow> h\<lparr>wfile := wfile h @ [HeaderBlock (concat buf)], headers_buffer := Some []\<rparr>)"

text \<open>\<^verbatim>\<open>BaseHTTPRequestHandler.end_headers\<close>: appending to a buffer that was never created
  raises \<^verbatim>\<open>AttributeError\<close>.\<close>

definition Base_end_headers :: "handler \<Rightarrow> exn + handler" where
  "Base_end_headers h =
     (if request_version h \<noteq> ''HTTP/0.9''
      then (case headers_buffer h of
              None \<Rightarrow> Inl AttributeError
            | Some buf \<Rightarrow> Inr (flush_headers (h\<lparr>headers_buffer := Some (buf @ [CRLF])\<rparr>)))
      else Inr h)"

text \<open>\<^verbatim>\<open>NoCacheHandler.end_headers\<close>, lines 9 to 13 of the script.\<close>

definition NoCacheHandler_end_headers :: "handler \<Rightarrow> exn + handler" where
  "NoCacheHandler_end_headers h =
     (let h1 = send_header ''Cache-Control'' ''no-store, no-cache, must-revalidate, max-age=0'' h;
          h2 = send_header ''Pragma'' ''no-cache'' h1;
          h3 = send_header ''Expires'' ''0'' h2
      in Base_end_headers h3)"

text \<open>The three header lines as they appear on the wire.\<close>

definition nocache_lines :: "bytes list" where
  "nocache_lines =
     [''Cache-Control: no-store, no-cache, must-revalidate, max-age=0'' @ CRLF,
      ''Pragma: no-cache'' @ CRLF,
      ''Expires: 0'' @ CRLF]"

subsection \<open>\<^verbatim>\<open>BaseHTTPRequestHandler\<close>: responses\<close>

text \<open>Method resolution: \<^verbatim>\<open>self.end_headers()\<close> is the override on a \<^verbatim>\<open>NoCacheHandler\<close> and
  the inherited method on a plain \<^verbatim>\<open>SimpleHTTPRequestHandler\<close>.\<close>

datatype handler_class = SimpleHTTPRequestHandler | NoCacheHandler

fun end_headers :: "handler_class \<Rightarrow> handler \<Rightarrow> exn + handler" where
  "end_headers SimpleHTTPRequestHandler h = Base_end_headers h"
| "end_headers NoCacheHandler h = NoCacheHandler_end_headers h"

text \<open>The rows of \<^verbatim>\<open>BaseHTTPRequestHandler.responses\<close> (phrase and description of
  \<^verbatim>\<open>http.HTTPStatus\<close>) for the status codes this server sends.\<close>

definition responses :: "nat \<Rightarrow> (string \<times> string) option" where
  "responses = map_of
     [(100, (''Continue'', ''Request received, please continue'')),
      (200, (''OK'', ''Request fulfilled, document follows'')),
      (301, (''Moved Permanently'', ''Object moved permanently -- see URI list'')),
      (304, (''Not Modified'', ''Document has not changed since given time'')),
      (400, (''Bad Request'', ''Bad request syntax or unsupported method'')),
      (404, (''Not Found'', ''Nothing matches the given URI'')),
      (414, (''Request-URI Too Long'', ''URI is too long'')),
      (431, (''Request Header Fields Too Large'',
             ''The server is unwilling to process the request because its header fields are too large'')),
      (501, (''Not Implemented'', ''Server does not support this operation'')),
      (505, (''HTTP Version Not Supported'', ''Cannot fulfill request''))]"

text \<open>\<^verbatim>\<open>BaseHTTPRequestHandler.send_response_only\<close>\<close>

definition send_response_only :: "nat \<Rightarrow> string option \<Rightarrow> handler \<Rightarrow> handler" where
  "send_response_only code message h =
     (if request_version h \<noteq> ''HTTP/0.9''
      then let message' = (case message of
                             Some m \<Rightarrow> m
                           | None \<Rightarrow> (case responses code of
                                        Some (phrase, description) \<Rightarrow> phrase
                                      | None \<Rightarrow> []))
           in h\<lparr>headers_buffer :=
                  Some ((case headers_buffer h of None \<Rightarrow> [] | Some buf \<Rightarrow> buf)
                        @ [protocol_version @ '' '' @ str_nat code @ '' '' @ message' @ CRLF])\<rparr>
      else h)"

text \<open>\<^verbatim>\<open>version_string\<close> with \<^verbatim>\<open>server_version = "SimpleHTTP/0.6"\<close>, and
  \<^verbatim>\<open>date_time_string\<close>.\<close>

definition version_string :: "env \<Rightarrow> string" where
  "version_string e = ''SimpleHTTP/0.6'' @ '' '' @ (''Python/'' @ python_version e)"

definition date_time_string :: "env \<Rightarrow> int option \<Rightarrow> string" where
  "date_time_string e timestamp =
     formatdate e (case timestamp of None \<Rightarrow> time_now e | Some t \<Rightarrow> t)"

text \<open>\<^verbatim>\<open>BaseHTTPRequestHandler.send_response\<close>\<close>

definition send_response :: "env \<Rightarrow> nat \<Rightarrow> string option \<Rightarrow> handler \<Rightarrow> handler" where
  "send_response e code message h =
     (let h1 = send_response_only code message h;
          h2 = send_header ''Server'' (version_string e) h1
      in send_header ''Date'' (date_time_string e None) h2)"

text \<open>\<^verbatim>\<open>DEFAULT_ERROR_MESSAGE\<close> filled in, and \<^verbatim>\<open>DEFAULT_ERROR_CONTENT_TYPE\<close>.\<close>

definition error_message_format :: "nat \<Rightarrow> string \<Rightarrow> string \<Rightarrow> string" where
  "error_message_format code message explain =
     ''<!DOCTYPE HTML>'' @ LF @
     ''<html lang='' @ [CHR 0x22] @ ''en'' @ [CHR 0x22] @ ''>'' @ LF @
     ''    <head>'' @ LF @
     ''        <meta charset='' @ [CHR 0x22] @ ''utf-8'' @ [CHR 0x22] @ ''>'' @ LF @
     ''        <title>Error response</title>'' @ LF @
     ''    </head>'' @ LF @
     ''    <body>'' @ LF @
     ''        <h1>Error response</h1>'' @ LF @
     ''        <p>Error code: '' @ str_nat code @ ''</p>'' @ LF @
     ''        <p>Message: '' @ message @ ''.</p>'' @ LF @
     ''        <p>Error code explanation: '' @ str_nat code @ '' - '' @ explain @ ''.</p>'' @ LF @
     ''    </body>'' @ LF @
     ''</html>'' @ LF"

definition error_content_type :: string where
  "error_content_type = ''text/html;charset=utf-8''"

text \<open>\<^verbatim>\<open>BaseHTTPRequestHandler.send_error\<close>\<close>

definition send_error ::
  "handler_class \<Rightarrow> env \<Rightarrow> nat \<Rightarrow> string option \<Rightarrow> string option \<Rightarrow> handler \<Rightarrow> exn + handler"
where
  "send_error c e code message explain h =
     (let (shortmsg, longmsg) =
            (case responses code of Some r \<Rightarrow> r | None \<Rightarrow> (''???'', ''???''));
          message' = (case message of None \<Rightarrow> shortmsg | Some m \<Rightarrow> m);
          explain' = (case explain of None \<Rightarrow> longmsg | Some x \<Rightarrow> x);
          h1 = send_response e code (Some message') h;
          h2 = send_header ''Connection'' ''close'' h1;
          body = (if code \<ge> 200 \<and> code \<noteq> 204 \<and> code \<noteq> 205 \<and> code \<noteq> 304
                  then Some (encode_utf8 (error_message_format code
                               (html_escape message') (html_escape explain')))
                  else None);
          h3 = (case body of
                  Some b \<Rightarrow> send_header ''Content-Length'' (str_nat (length b))
                              (send_header ''Content-Type'' error_content_type h2)
                | None \<Rightarrow> h2)
      in case end_headers c h3 of
           Inl x \<Rightarrow> Inl x
         | Inr h4 \<Rightarrow>
             Inr (case body of
                    Some b \<Rightarrow> (if command h4 \<noteq> Some ''HEAD'' \<and> b \<noteq> []
                               then h4\<lparr>wfile := wfile h4 @ [BodyData b]\<rparr> else h4)
                  | None \<Rightarrow> h4))"

subsection \<open>\<^verbatim>\<open>SimpleHTTPRequestHandler\<close>\<close>

text \<open>\<^verbatim>\<open>translate_path\<close>. The loop over the words is the \<open>foldl\<close>; a word that is not a plain
  name is skipped.\<close>

definition translate_step :: "string \<Rightarrow> string \<Rightarrow> string" where
  "translate_step p word =
     (if dirname word \<noteq> [] \<or> word = ''.'' \<or> word = ''..'' then p else path_join p word)"

definition translate_path :: "env \<Rightarrow> string \<Rightarrow> string" where
  "translate_path e p =
     (let p1 = split1_fst CHR ''?'' p;
          p2 = split1_fst CHR ''#'' p1;
          trailing_slash = endswith ''/'' (rstrip_ws p2);
          p3 = unquote e p2;
          p4 = normpath e p3;
          words = filter (\<lambda>w. w \<noteq> []) (split_on CHR ''/'' p4);
          p5 = foldl translate_step (directory e) words
      in if trailing_slash then p5 @ ''/'' else p5)"

text \<open>\<^verbatim>\<open>guess_type\<close> with the class attribute \<^verbatim>\<open>extensions_map\<close>.\<close>

definition extensions_map :: "string \<Rightarrow> string option" where
  "extensions_map = map_of
     [(''.gz'', ''application/gzip''),
      (''.Z'', ''application/octet-stream''),
      (''.bz2'', ''application/x-bzip2''),
      (''.xz'', ''application/x-xz'')]"

definition guess_type :: "env \<Rightarrow> string \<Rightarrow> string" where
  "guess_type e p =
     (let ext = snd (splitext p)
      in case extensions_map ext of
           Some t \<Rightarrow> t
         | None \<Rightarrow>
             (case extensions_map (lower ext) of
                Some t \<Rightarrow> t
              | None \<Rightarrow>
                  (case mimetypes_guess_type e p of
                     Some guess \<Rightarrow> (if guess \<noteq> [] then guess else ''application/octet-stream'')
                   | None \<Rightarrow> ''application/octet-stream'')))"

text \<open>The request headers are an \<^verbatim>\<open>email.message.Message\<close>: names compare without regard to
  case and the first match counts.\<close>

definition header_get :: "(string \<times> string) list \<Rightarrow> string \<Rightarrow> string option" where
  \<comment> \<open>\<^verbatim>\<open>headers.get(name)\<close>\<close>
  "header_get hs name = map_of (map (\<lambda>(k, v). (lower k, v)) hs) (lower name)"

definition header_in :: "string \<Rightarrow> (string \<times> string) list \<Rightarrow> bool" where
  \<comment> \<open>\<^verbatim>\<open>name in headers\<close>\<close>
  "header_in name hs \<longleftrightarrow> lower name \<in> set (map (\<lambda>(k, v). lower k) hs)"

text \<open>What \<^verbatim>\<open>send_head\<close> returns to its caller: the open file (its name and bytes), or the
  \<^verbatim>\<open>io.BytesIO\<close> holding a directory listing.\<close>

datatype fileobj = DiskFile string bytes | BytesIO bytes

fun file_bytes :: "fileobj \<Rightarrow> bytes" where
  "file_bytes (DiskFile name data) = data"
| "file_bytes (BytesIO data) = data"

text \<open>The test of \<^verbatim>\<open>send_head\<close> that decides for 304: the \<^verbatim>\<open>If-Modified-Since\<close> value
  parses, is naive or in UTC, and is not before the file's modification time.\<close>

definition not_modified_since :: "env \<Rightarrow> (string \<times> string) list \<Rightarrow> int \<Rightarrow> bool" where
  "not_modified_since e hs mtime =
     (header_in ''If-Modified-Since'' hs \<and>
      \<not> header_in ''If-None-Match'' hs \<and>
      (case header_get hs ''If-Modified-Since'' of
         None \<Rightarrow> False
       | Some v \<Rightarrow>
           (case parsedate_to_datetime e v of
              None \<Rightarrow> False
            | Some (ims, tz) \<Rightarrow> (tz = None \<or> tz = Some 0) \<and> mtime \<le> ims)))"

text \<open>\<^verbatim>\<open>send_head\<close> from \<^verbatim>\<open>ctype = self.guess_type(path)\<close> on: serving the file \<open>p\<close>.\<close>

definition send_head_file ::
  "handler_class \<Rightarrow> env \<Rightarrow> string \<Rightarrow> handler \<Rightarrow> exn + (handler \<times> fileobj option)"
where
  "send_head_file c e p h =
     (let ctype = guess_type e p
      in if endswith ''/'' p
         then (case send_error c e 404 (Some ''File not found'') None h of
                 Inl x \<Rightarrow> Inl x | Inr h1 \<Rightarrow> Inr (h1, None))
         else (case open_rb e p of
                 OpenOSError \<Rightarrow>
                   (case send_error c e 404 (Some ''File not found'') None h of
                      Inl x \<Rightarrow> Inl x | Inr h1 \<Rightarrow> Inr (h1, None))
               | OpenRaises x \<Rightarrow> Inl x
               | Opened data st_size st_mtime \<Rightarrow>
                   (if not_modified_since e (headers h) st_mtime
                    then (case end_headers c (send_response e 304 None h) of
                            Inl x \<Rightarrow> Inl x | Inr h1 \<Rightarrow> Inr (h1, None))
                    else (let h1 = send_response e 200 None h;
                              h2 = send_header ''Content-type'' ctype h1;
                              h3 = send_header ''Content-Length'' (str_nat st_size) h2;
                              h4 = send_header ''Last-Modified''
                                     (date_time_string e (Some st_mtime)) h3
                          in case end_headers c h4 of
                               Inl x \<Rightarrow> Inl x
                             | Inr h5 \<Rightarrow> Inr (h5, Some (DiskFile p data))))))"

text \<open>\<^verbatim>\<open>list_directory\<close>\<close>

definition list_item :: "env \<Rightarrow> string \<Rightarrow> string \<Rightarrow> string" where
  "list_item e p name =
     (let fullname = path_join p name;
          linkname = (if isdir e fullname then name @ ''/'' else name);
          displayname = (if islink e fullname then name @ ''@''
                         else if isdir e fullname then name @ ''/'' else name)
      in ''<li><a href='' @ [CHR 0x22] @ quote e linkname @ [CHR 0x22] @ ''>''
         @ html_escape displayname @ ''</a></li>'')"

definition listing_lines :: "env \<Rightarrow> string \<Rightarrow> string \<Rightarrow> string list \<Rightarrow> string list" where
  "listing_lines e request_path p names =
     (let displaypath = html_escape (unquote e request_path);
          enc = filesystemencoding e;
          title = ''Directory listing for '' @ displaypath
      in [''<!DOCTYPE HTML>'',
          ''<html lang='' @ [CHR 0x22] @ ''en'' @ [CHR 0x22] @ ''>'',
          ''<head>'',
          ''<meta charset='' @ [CHR 0x22] @ enc @ [CHR 0x22] @ ''>'',
          ''<title>'' @ title @ ''</title>'' @ LF @ ''</head>'',
          ''<body>'' @ LF @ ''<h1>'' @ title @ ''</h1>'',
          ''<hr>'' @ LF @ ''<ul>'']
         @ map (list_item e p) names
         @ [''</ul>'' @ LF @ ''<hr>'' @ LF @ ''</body>'' @ LF @ ''</html>'' @ LF])"

definition list_directory ::
  "handler_class \<Rightarrow> env \<Rightarrow> string \<Rightarrow> handler \<Rightarrow> exn + (handler \<times> fileobj option)"
where
  "list_directory c e p h =
     (case listdir e p of
        None \<Rightarrow>
          (case send_error c e 404 (Some ''No permission to list directory'') None h of
             Inl x \<Rightarrow> Inl x | Inr h1 \<Rightarrow> Inr (h1, None))
      | Some names \<Rightarrow>
          (let sorted_names = sort_key lower names;
               r = listing_lines e (path h) p sorted_names
           in case encode_fs e (join_with LF r) of
                None \<Rightarrow> Inl UnicodeEncodeError
              | Some encoded \<Rightarrow>
                  (let h1 = send_response e 200 None h;
                       h2 = send_header ''Content-type''
                              (''text/html; charset='' @ filesystemencoding e) h1;
                       h3 = send_header ''Content-Length'' (str_nat (length encoded)) h2
                   in case end_headers c h3 of
                        Inl x \<Rightarrow> Inl x
                      | Inr h4 \<Rightarrow> Inr (h4, Some (BytesIO encoded)))))"

text \<open>\<^verbatim>\<open>send_head\<close>: the directory part, then \<open>send_head_file\<close>.\<close>

definition send_head ::
  "handler_class \<Rightarrow> env \<Rightarrow> handler \<Rightarrow> exn + (handler \<times> fileobj option)"
where
  "send_head c e h =
     (let p = translate_path e (path h)
      in if isdir e p
         then (case urlsplit e (path h) of
                 None \<Rightarrow> Inl ValueError
               | Some (scheme, netloc, url_path, query, fragment) \<Rightarrow>
                   (if \<not> endswith ''/'' url_path
                    then (let h1 = send_response e 301 None h;
                              new_url = urlunsplit e
                                          (scheme, netloc, url_path @ ''/'', query, fragment);
                              h2 = send_header ''Location'' new_url h1;
                              h3 = send_header ''Content-Length'' ''0'' h2
                          in case end_headers c h3 of
                               Inl x \<Rightarrow> Inl x | Inr h4 \<Rightarrow> Inr (h4, None))
                    else if isfile e (path_join p ''index.html'')
                         then send_head_file c e (path_join p ''index.html'') h
                    else if isfile e (path_join p ''index.htm'')
                         then send_head_file c e (path_join p ''index.htm'') h
                    else list_directory c e p h))
         else send_head_file c e p h)"

text \<open>\<^verbatim>\<open>copyfile\<close>, that is \<^verbatim>\<open>shutil.copyfileobj\<close>: reads of \<^verbatim>\<open>COPY_BUFSIZE\<close> bytes, each
  written at once, until a read returns nothing.\<close>

function copy_chunks :: "bytes \<Rightarrow> bytes list" where
  "copy_chunks data =
     (if data = [] then [] else take 65536 data # copy_chunks (drop 65536 data))"
  by pat_completeness auto
termination
  by (relation "measure length") auto

declare copy_chunks.simps [simp del]

definition copyfile :: "fileobj \<Rightarrow> handler \<Rightarrow> handler" where
  "copyfile f h = h\<lparr>wfile := wfile h @ map BodyData (copy_chunks (file_bytes f))\<rparr>"

text \<open>\<^verbatim>\<open>do_GET\<close> and \<^verbatim>\<open>do_HEAD\<close>\<close>

definition do_GET :: "handler_class \<Rightarrow> env \<Rightarrow> handler \<Rightarrow> exn + handler" where
  "do_GET c e h =
     (case send_head c e h of
        Inl x \<Rightarrow> Inl x
      | Inr (h1, None) \<Rightarrow> Inr h1
      | Inr (h1, Some f) \<Rightarrow> Inr (copyfile f h1))"

definition do_HEAD :: "handler_class \<Rightarrow> env \<Rightarrow> handler \<Rightarrow> exn + handler" where
  "do_HEAD c e h =
     (case send_head c e h of
        Inl x \<Rightarrow> Inl x
      | Inr (h1, f) \<Rightarrow> Inr h1)"

subsection \<open>\<^verbatim>\<open>BaseHTTPRequestHandler\<close>: reading a request\<close>

text \<open>
  One request as the handler reads it from \<^verbatim>\<open>rfile\<close>: the bytes that
  \<^verbatim>\<open>rfile.readline(65537)\<close> returns, and what \<^verbatim>\<open>http.client.parse_headers\<close> makes of the lines
  that follow: the header fields, or one of the two exceptions that \<^verbatim>\<open>parse_request\<close>
  catches (with \<^verbatim>\<open>str(err)\<close>).
\<close>

datatype parsed_headers =
  Headers "(string \<times> string) list" | LineTooLong string | HTTPException string

record request =
  raw_requestline :: bytes
  header_lines :: parsed_headers

text \<open>The \<^verbatim>\<open>try\<close> block of \<^verbatim>\<open>parse_request\<close> that reads the version: \<open>None\<close> when it raises
  \<^verbatim>\<open>ValueError\<close> or \<^verbatim>\<open>IndexError\<close>, else \<^verbatim>\<open>base_version_number\<close> and \<^verbatim>\<open>version_number\<close>.\<close>

definition parse_version :: "string \<Rightarrow> (string \<times> nat \<times> nat) option" where
  "parse_version version =
     (if \<not> startswith ''HTTP/'' version then None
      else case split1_snd CHR ''/'' version of
             None \<Rightarrow> None
           | Some base_version_number \<Rightarrow>
               (let version_number = split_on CHR ''.'' base_version_number
                in if length version_number \<noteq> 2 then None
                   else if list_ex (\<lambda>component. \<not> isdigit component) version_number then None
                   else if list_ex (\<lambda>component. length component > 10) version_number then None
                   else (case (py_int (version_number ! 0), py_int (version_number ! 1)) of
                           (Some major, Some minor) \<Rightarrow> Some (base_version_number, major, minor)
                         | _ \<Rightarrow> None)))"

text \<open>\<^verbatim>\<open>handle_expect_100\<close>\<close>

definition handle_expect_100 :: "handler_class \<Rightarrow> handler \<Rightarrow> exn + (bool \<times> handler)" where
  "handle_expect_100 c h =
     (case end_headers c (send_response_only 100 None h) of
        Inl x \<Rightarrow> Inl x | Inr h1 \<Rightarrow> Inr (True, h1))"

text \<open>\<^verbatim>\<open>parse_request\<close> from the header parsing on.\<close>

definition parse_request_headers ::
  "handler_class \<Rightarrow> env \<Rightarrow> request \<Rightarrow> handler \<Rightarrow> exn + (bool \<times> handler)"
where
  "parse_request_headers c e r h =
     (case header_lines r of
        LineTooLong err \<Rightarrow>
          (case send_error c e 431 (Some ''Line too long'') (Some err) h of
             Inl x \<Rightarrow> Inl x | Inr h1 \<Rightarrow> Inr (False, h1))
      | HTTPException err \<Rightarrow>
          (case send_error c e 431 (Some ''Too many headers'') (Some err) h of
             Inl x \<Rightarrow> Inl x | Inr h1 \<Rightarrow> Inr (False, h1))
      | Headers hs \<Rightarrow>
          (let h1 = h\<lparr>headers := hs\<rparr>;
               conntype = (case header_get hs ''Connection'' of None \<Rightarrow> [] | Some v \<Rightarrow> v);
               h2 = (if lower conntype = ''close'' then h1\<lparr>close_connection := True\<rparr>
                     else if lower conntype = ''keep-alive'' \<and> protocol_version \<ge> ''HTTP/1.1''
                          then h1\<lparr>close_connection := False\<rparr>
                     else h1);
               expect = (case header_get hs ''Expect'' of None \<Rightarrow> [] | Some v \<Rightarrow> v)
           in if lower expect = ''100-continue'' \<and> protocol_version \<ge> ''HTTP/1.1''
                 \<and> request_version h2 \<ge> ''HTTP/1.1''
              then handle_expect_100 c h2
              else Inr (True, h2)))"

text \<open>\<^verbatim>\<open>parse_request\<close>\<close>

definition parse_request ::
  "handler_class \<Rightarrow> env \<Rightarrow> request \<Rightarrow> handler \<Rightarrow> exn + (bool \<times> handler)"
where
  "parse_request c e r h =
     (let rl = rstrip_chars [CHR 0x0D, CHR 0x0A] (raw_requestline r);
          h0 = h\<lparr>command := None, request_version := default_request_version,
                 close_connection := True, requestline := rl\<rparr>;
          words = py_split rl
      in if length words = 0 then Inr (False, h0)
         else
           (case (if length words \<ge> 3
                  then (case parse_version (last words) of
                          None \<Rightarrow>
                            Inl (send_error c e 400
                                   (Some (''Bad request version ('' @ repr e (last words) @ '')''))
                                   None h0)
                        | Some (base_version_number, major, minor) \<Rightarrow>
                            (let h1 = (if (major > 1 \<or> (major = 1 \<and> minor \<ge> 1))
                                          \<and> protocol_version \<ge> ''HTTP/1.1''
                                       then h0\<lparr>close_connection := False\<rparr> else h0)
                             in if major \<ge> 2
                                then Inl (send_error c e 505
                                            (Some (''Invalid HTTP version (''
                                                   @ base_version_number @ '')''))
                                            None h1)
                                else Inr (h1\<lparr>request_version := last words\<rparr>)))
                  else Inr h0) of
              Inl failed \<Rightarrow>
                (case failed of Inl x \<Rightarrow> Inl x | Inr h1 \<Rightarrow> Inr (False, h1))
            | Inr h1 \<Rightarrow>
                (if \<not> (2 \<le> length words \<and> length words \<le> 3)
                 then (case send_error c e 400
                              (Some (''Bad request syntax ('' @ repr e rl @ '')'')) None h1 of
                         Inl x \<Rightarrow> Inl x | Inr h2 \<Rightarrow> Inr (False, h2))
                 else
                   (let cmd = words ! 0;
                        pth = words ! 1;
                        h2 = (if length words = 2 then h1\<lparr>close_connection := True\<rparr> else h1)
                    in if length words = 2 \<and> cmd \<noteq> ''GET''
                       then (case send_error c e 400
                                    (Some (''Bad HTTP/0.9 request type ('' @ repr e cmd @ '')''))
                                    None h2 of
                               Inl x \<Rightarrow> Inl x | Inr h3 \<Rightarrow> Inr (False, h3))
                       else
                         (let h3 = h2\<lparr>command := Some cmd,
                                       path := (if startswith ''//'' pth
                                                then ''/'' @ lstrip_chars ''/'' pth else pth)\<rparr>
                          in parse_request_headers c e r h3)))))"

text \<open>\<^verbatim>\<open>handle_one_request\<close>. The handler has the two methods \<^verbatim>\<open>do_GET\<close> and \<^verbatim>\<open>do_HEAD\<close>;
  \<^verbatim>\<open>hasattr(self, 'do_' + command)\<close> fails for every other command.\<close>

definition handle_one_request ::
  "handler_class \<Rightarrow> env \<Rightarrow> request \<Rightarrow> handler \<Rightarrow> exn + handler"
where
  "handle_one_request c e r h =
     (if length (raw_requestline r) > 65536
      then send_error c e 414 None None
             (h\<lparr>requestline := [], request_version := [], command := Some []\<rparr>)
      else if raw_requestline r = [] then Inr (h\<lparr>close_connection := True\<rparr>)
      else (case parse_request c e r h of
              Inl x \<Rightarrow> Inl x
            | Inr (False, h1) \<Rightarrow> Inr h1
            | Inr (True, h1) \<Rightarrow>
                (case command h1 of
                   None \<Rightarrow> Inl TypeError
                 | Some cmd \<Rightarrow>
                     (if cmd = ''GET'' then do_GET c e h1
                      else if cmd = ''HEAD'' then do_HEAD c e h1
                      else send_error c e 501
                             (Some (''Unsupported method ('' @ repr e cmd @ '')'')) None h1))))"

text \<open>
  \<^verbatim>\<open>handle\<close>: the requests of one connection, in the order they arrive; after the last one
  \<^verbatim>\<open>readline\<close> returns \<^verbatim>\<open>b''\<close>. The \<^verbatim>\<open>while\<close> loop reads the next request as long as
  \<open>close_connection\<close> is false.
\<close>

definition eof_request :: request where
  "eof_request = \<lparr>raw_requestline = [], header_lines = Headers []\<rparr>"

fun handle_loop ::
  "handler_class \<Rightarrow> env \<Rightarrow> request list \<Rightarrow> handler \<Rightarrow> exn + handler"
where
  "handle_loop c e [] h =
     (if close_connection h then Inr h else handle_one_request c e eof_request h)"
| "handle_loop c e (r # rs) h =
     (if close_connection h then Inr h
      else (case handle_one_request c e r h of
              Inl x \<Rightarrow> Inl x | Inr h1 \<Rightarrow> handle_loop c e rs h1))"

definition handle :: "handler_class \<Rightarrow> env \<Rightarrow> request list \<Rightarrow> handler \<Rightarrow> exn + handler" where
  "handle c e rs h =
     (let h0 = h\<lparr>close_connection := True\<rparr>
      in case rs of
           [] \<Rightarrow> handle_one_request c e eof_request h0
         | r # rest \<Rightarrow>
             (case handle_one_request c e r h0 of
                Inl x \<Rightarrow> Inl x | Inr h1 \<Rightarrow> handle_loop c e rest h1))"

subsection \<open>\<^verbatim>\<open>socketserver.TCPServer\<close> and the script's start-up block\<close>

text \<open>
  The kernel as the constructor meets it: whether \<^verbatim>\<open>socket.socket(AF_INET, SOCK_STREAM)\<close>
  fails, whether \<^verbatim>\<open>bind\<close> of a socket with the given options to the given address fails,
  what \<^verbatim>\<open>getsockname\<close> then returns, and whether \<^verbatim>\<open>listen\<close> fails. \<open>None\<close> is success.
\<close>

datatype oserror = EADDRINUSE | EACCES | Errno nat

datatype sockopt = SO_REUSEADDR | SO_REUSEPORT

type_synonym address = "string \<times> nat"

record kernel =
  sock_create :: "oserror option"
  sock_bind :: "sockopt list \<Rightarrow> address \<Rightarrow> oserror option"
  sock_getsockname :: "address \<Rightarrow> address"
  sock_listen :: "nat \<Rightarrow> oserror option"

record tcp_server =
  bind_address :: address
  server_address :: address
  RequestHandlerClass :: handler_class
  sockopts :: "sockopt list"
  activated :: bool

definition allow_reuse_address :: bool where
  "allow_reuse_address = False"

definition allow_reuse_port :: bool where
  "allow_reuse_port = False"

definition request_queue_size :: nat where
  "request_queue_size = 5"

text \<open>\<^verbatim>\<open>TCPServer.server_bind\<close> and \<^verbatim>\<open>TCPServer.server_activate\<close>\<close>

definition server_bind :: "kernel \<Rightarrow> tcp_server \<Rightarrow> oserror + tcp_server" where
  "server_bind k srv =
     (let srv1 = (if allow_reuse_address then srv\<lparr>sockopts := sockopts srv @ [SO_REUSEADDR]\<rparr>
                  else srv);
          srv2 = (if allow_reuse_port then srv1\<lparr>sockopts := sockopts srv1 @ [SO_REUSEPORT]\<rparr>
                  else srv1)
      in case sock_bind k (sockopts srv2) (bind_address srv2) of
           Some err \<Rightarrow> Inl err
         | None \<Rightarrow> Inr (srv2\<lparr>server_address := sock_getsockname k (bind_address srv2)\<rparr>))"

definition server_activate :: "kernel \<Rightarrow> tcp_server \<Rightarrow> oserror + tcp_server" where
  "server_activate k srv =
     (case sock_listen k request_queue_size of
        Some err \<Rightarrow> Inl err
      | None \<Rightarrow> Inr (srv\<lparr>activated := True\<rparr>))"

text \<open>\<^verbatim>\<open>TCPServer.__init__\<close> with \<^verbatim>\<open>bind_and_activate=True\<close>: an exception of
  \<^verbatim>\<open>server_bind\<close> or \<^verbatim>\<open>server_activate\<close> closes the socket and is raised again.\<close>

definition TCPServer_init :: "kernel \<Rightarrow> address \<Rightarrow> handler_class \<Rightarrow> oserror + tcp_server" where
  "TCPServer_init k addr cls =
     (case sock_create k of
        Some err \<Rightarrow> Inl err
      | None \<Rightarrow>
          (let srv = \<lparr>bind_address = addr, server_address = addr, RequestHandlerClass = cls,
                      sockopts = [], activated = False\<rparr>
           in case server_bind k srv of
                Inl err \<Rightarrow> Inl err
              | Inr srv1 \<Rightarrow> server_activate k srv1))"

text \<open>
  One accepted connection: the environment while it is served and the requests the client
  sends on it. \<^verbatim>\<open>finish_request\<close> builds a handler (\<^verbatim>\<open>setup\<close>, \<^verbatim>\<open>handle\<close>, \<^verbatim>\<open>finish\<close>); an
  exception that escapes \<^verbatim>\<open>handle\<close> is reported by \<^verbatim>\<open>handle_error\<close> on \<^verbatim>\<open>sys.stderr\<close> and the
  connection is shut down. In every path of this handler that raises, nothing has been
  written for the request yet, so the outcome keeps the exception only.
\<close>

datatype outcome = Replied "chunk list" | Raised exn

definition new_handler :: handler where
  "new_handler =
     \<lparr>command = None, path = [], request_version = [], requestline = [], headers = [],
      headers_buffer = None, wfile = [], close_connection = True\<rparr>"

definition finish_request :: "handler_class \<Rightarrow> env \<times> request list \<Rightarrow> outcome" where
  "finish_request cls conn =
     (case handle cls (fst conn) (snd conn) new_handler of
        Inl x \<Rightarrow> Raised x
      | Inr h \<Rightarrow> Replied (wfile h))"

text \<open>
  The process: the lines printed on standard output, the listening server once it exists,
  the outcome of every connection served so far, and the exception that ended the process,
  if one did.
\<close>

record process =
  stdout :: "string list"
  httpd :: "tcp_server option"
  served :: "outcome list"
  uncaught :: "oserror option"

text \<open>
  \<^verbatim>\<open>serve_forever\<close> never returns by itself (nothing calls \<^verbatim>\<open>shutdown\<close>); what can be observed
  of it is the process after the connections accepted so far, one at a time.
\<close>

fun serve_forever :: "tcp_server \<Rightarrow> (env \<times> request list) list \<Rightarrow> process \<Rightarrow> process" where
  "serve_forever srv [] p = p"
| "serve_forever srv (conn # conns) p =
     serve_forever srv conns
       (p\<lparr>served := served p @ [finish_request (RequestHandlerClass srv) conn]\<rparr>)"

text \<open>The script: line 6, and lines 15 to 17.\<close>

definition PORT :: nat where
  "PORT = 8000"

definition main :: "kernel \<Rightarrow> (env \<times> request list) list \<Rightarrow> process" where
  "main k conns =
     (case TCPServer_init k ([], PORT) NoCacheHandler of
        Inl err \<Rightarrow> \<lparr>stdout = [], httpd = None, served = [], uncaught = Some err\<rparr>
      | Inr srv \<Rightarrow>
          (let p = \<lparr>stdout = [''Serving at http://localhost:'' @ str_nat PORT
                                @ '' with no-cache headers''],
                    httpd = Some srv, served = [], uncaught = None\<rparr>
           in serve_forever srv conns p))"

section \<open>Properties\<close>

lemma lower_literals [simp]:
  "lower ''Cache-Control'' \<noteq> ''connection''"
  "lower ''Pragma'' \<noteq> ''connection''"
  "lower ''Expires'' \<noteq> ''connection''"
  by (simp_all add: lower_def)

text \<open>
  Claim C9. Whenever a header block is emitted at all (the request version is not
  HTTP/0.9), \<^verbatim>\<open>NoCacheHandler.end_headers\<close> writes exactly one block: the lines buffered by
  the base behaviour in their order, then Cache-Control, Pragma, Expires in this order,
  then the blank line; and it leaves the buffer empty.
\<close>

theorem C9_injected_order:
  assumes "request_version h \<noteq> ''HTTP/0.9''"
  shows "NoCacheHandler_end_headers h =
           Inr (h\<lparr>wfile := wfile h @
                     [HeaderBlock (concat ((case headers_buffer h of None \<Rightarrow> [] | Some buf \<Rightarrow> buf)
                                           @ nocache_lines @ [CRLF]))],
                  headers_buffer := Some []\<rparr>)"
  using assms
  by (simp add: NoCacheHandler_end_headers_def send_header_def Base_end_headers_def
      flush_headers_def nocache_lines_def Let_def split: option.splits)

theorem C9_injected_order_witness:
  "NoCacheHandler_end_headers
     \<lparr>command = Some ''GET'', path = ''/'', request_version = ''HTTP/1.1'',
      requestline = ''GET / HTTP/1.1'', headers = [],
      headers_buffer = Some [''HTTP/1.0 200 OK'' @ CRLF], wfile = [],
      close_connection = True\<rparr> =
   Inr \<lparr>command = Some ''GET'', path = ''/'', request_version = ''HTTP/1.1'',
        requestline = ''GET / HTTP/1.1'', headers = [],
        headers_buffer = Some [],
        wfile = [HeaderBlock (concat ([''HTTP/1.0 200 OK'' @ CRLF] @ nocache_lines @ [CRLF]))],
        close_connection = True\<rparr>"
  using C9_injected_order [of "\<lparr>command = Some ''GET'', path = ''/'',
      request_version = ''HTTP/1.1'', requestline = ''GET / HTTP/1.1'', headers = [],
      headers_buffer = Some [''HTTP/1.0 200 OK'' @ CRLF], wfile = [],
      close_connection = True\<rparr>"]
  by simp

end
